theory Spec2Isabelle
  imports Complex_Main "HOL-Library.Sublist"
begin

section \<open>JavaScript values\<close>

text \<open>
  The estimation engine is the \<^verbatim>\<open>results\<close> computation of the survey component, in three
  variants: the two documents of \<^verbatim>\<open>src/App.js\<close> (the simple variant, and the variant with the
  power-source and charging multipliers) and the Indian-defaults variant with categorical
  range labels.

  A JavaScript number is modelled as an exact rational, or one of the three special values
  \<open>Infinity\<close>, \<open>-Infinity\<close> and \<open>NaN\<close>, with the IEEE rules for the special values. A
  numeric literal beyond the range of the doubles reads as an infinity, and one below half
  the least positive double as 0. The binary rounding of an arithmetic result to a double,
  its overflow to an infinity or underflow to 0, and the sign of zero are not modelled: a
  finite result of \<open>+\<close>, \<open>*\<close> and \<open>/\<close> is the exact one, and there is one zero, read
  as \<open>+0\<close>. A value computed here is the value the exact arithmetic gives; the code's
  double can differ from it in the last place, and a result rounded to two decimals can
  differ by 0.01 where the exact value lies on a tie.
\<close>

datatype jsnum = Fin rat | PInf | NInf | NaN

datatype jsval = JUndefined | JBool bool | JNum jsnum | JStr string

datatype js_error = TypeError

subsection \<open>Arithmetic and comparison\<close>

fun js_neg :: "jsnum \<Rightarrow> jsnum" where
  "js_neg (Fin a) = Fin (- a)"
| "js_neg PInf = NInf"
| "js_neg NInf = PInf"
| "js_neg NaN = NaN"

fun js_add :: "jsnum \<Rightarrow> jsnum \<Rightarrow> jsnum" where
  "js_add (Fin a) (Fin b) = Fin (a + b)"
| "js_add NaN y = NaN"
| "js_add x NaN = NaN"
| "js_add PInf NInf = NaN"
| "js_add NInf PInf = NaN"
| "js_add PInf y = PInf"
| "js_add x PInf = PInf"
| "js_add NInf y = NInf"
| "js_add x NInf = NInf"

fun js_mul :: "jsnum \<Rightarrow> jsnum \<Rightarrow> jsnum" where
  "js_mul (Fin a) (Fin b) = Fin (a * b)"
| "js_mul NaN y = NaN"
| "js_mul x NaN = NaN"
| "js_mul PInf (Fin b) = (if b = 0 then NaN else if 0 < b then PInf else NInf)"
| "js_mul NInf (Fin b) = (if b = 0 then NaN else if 0 < b then NInf else PInf)"
| "js_mul (Fin a) PInf = (if a = 0 then NaN else if 0 < a then PInf else NInf)"
| "js_mul (Fin a) NInf = (if a = 0 then NaN else if 0 < a then NInf else PInf)"
| "js_mul PInf PInf = PInf"
| "js_mul PInf NInf = NInf"
| "js_mul NInf PInf = NInf"
| "js_mul NInf NInf = PInf"

text \<open>Division; a zero divisor is \<open>+0\<close>. The engine divides by the constants 1000, 100 and 2 only.\<close>

fun js_div :: "jsnum \<Rightarrow> jsnum \<Rightarrow> jsnum" where
  "js_div (Fin a) (Fin b) =
     (if b = 0 then (if a = 0 then NaN else if 0 < a then PInf else NInf) else Fin (a / b))"
| "js_div NaN y = NaN"
| "js_div x NaN = NaN"
| "js_div (Fin a) PInf = Fin 0"
| "js_div (Fin a) NInf = Fin 0"
| "js_div PInf (Fin b) = (if 0 \<le> b then PInf else NInf)"
| "js_div NInf (Fin b) = (if 0 \<le> b then NInf else PInf)"
| "js_div PInf PInf = NaN"
| "js_div PInf NInf = NaN"
| "js_div NInf PInf = NaN"
| "js_div NInf NInf = NaN"

text \<open>The relational operators: every comparison with \<open>NaN\<close> is false.\<close>

fun js_lt :: "jsnum \<Rightarrow> jsnum \<Rightarrow> bool" where
  "js_lt (Fin a) (Fin b) = (a < b)"
| "js_lt NaN y = False"
| "js_lt x NaN = False"
| "js_lt x NInf = False"
| "js_lt PInf y = False"
| "js_lt NInf y = True"
| "js_lt x PInf = True"

definition js_gt :: "jsnum \<Rightarrow> jsnum \<Rightarrow> bool" where
  "js_gt x y = js_lt y x"

definition js_le :: "jsnum \<Rightarrow> jsnum \<Rightarrow> bool" where
  "js_le x y = (x \<noteq> NaN \<and> y \<noteq> NaN \<and> (js_lt x y \<or> x = y))"

text \<open>\<^verbatim>\<open>Math.round\<close> rounds to the nearest integer, a tie towards \<open>+\<infinity>\<close>.\<close>

fun Math_round :: "jsnum \<Rightarrow> jsnum" where
  "Math_round (Fin a) = Fin (of_int \<lfloor>a + 1 / 2\<rfloor>)"
| "Math_round x = x"

definition Math_max :: "jsnum \<Rightarrow> jsnum \<Rightarrow> jsnum" where
  "Math_max x y = (if x = NaN \<or> y = NaN then NaN else if js_lt x y then y else x)"

text \<open>\<^verbatim>\<open>Math.pow(10, decimals)\<close> for a count of decimals.\<close>

definition Math_pow10 :: "nat \<Rightarrow> jsnum" where
  "Math_pow10 decimals = Fin (10 ^ decimals)"

text \<open>
  \<^verbatim>\<open>function round(num, decimals = 2) {
    return Math.round(num * Math.pow(10, decimals)) / Math.pow(10, decimals) }\<close>
\<close>

definition round_js :: "jsnum \<Rightarrow> nat \<Rightarrow> jsnum" where
  "round_js num decimals =
     js_div (Math_round (js_mul num (Math_pow10 decimals))) (Math_pow10 decimals)"

subsection \<open>Strings and conversions\<close>

text \<open>
  A string is a list of code units below 256 (the labels and numerals of the survey are
  ASCII); strings with other code units are outside the model.
  \<^verbatim>\<open>String.prototype.includes\<close> is containment as a contiguous substring.
\<close>

fun startsWith :: "string \<Rightarrow> string \<Rightarrow> bool" where
  "startsWith s [] = True"
| "startsWith [] (p # ps) = False"
| "startsWith (c # cs) (p # ps) = (c = p \<and> startsWith cs ps)"

fun str_includes :: "string \<Rightarrow> string \<Rightarrow> bool" where
  "str_includes [] p = (p = [])"
| "str_includes (c # cs) p = (startsWith (c # cs) p \<or> str_includes cs p)"

text \<open>
  \<^verbatim>\<open>Number(s)\<close> on a string: white space is trimmed; the empty string is 0; then a signed
  decimal literal (digits, an optional fraction, an optional exponent, or \<open>Infinity\<close>) or an
  unsigned binary, octal or hexadecimal integer literal; anything else is \<open>NaN\<close>. The white
  space below 256 is tab, line feed, vertical tab, form feed, carriage return, space and the
  no-break space.
\<close>

definition isWhiteSpace :: "char \<Rightarrow> bool" where
  "isWhiteSpace c =
     (c \<in> set [CHR 0x09, CHR 0x0A, CHR 0x0B, CHR 0x0C, CHR 0x0D, CHR 0x20, CHR 0xA0])"

definition trimString :: "string \<Rightarrow> string" where
  "trimString s = rev (dropWhile isWhiteSpace (rev (dropWhile isWhiteSpace s)))"

definition digitOf :: "char \<Rightarrow> nat option" where
  "digitOf c = map_of
     [(CHR ''0'', 0), (CHR ''1'', 1), (CHR ''2'', 2), (CHR ''3'', 3), (CHR ''4'', 4),
      (CHR ''5'', 5), (CHR ''6'', 6), (CHR ''7'', 7), (CHR ''8'', 8), (CHR ''9'', 9),
      (CHR ''a'', 10), (CHR ''b'', 11), (CHR ''c'', 12), (CHR ''d'', 13), (CHR ''e'', 14),
      (CHR ''f'', 15), (CHR ''A'', 10), (CHR ''B'', 11), (CHR ''C'', 12), (CHR ''D'', 13),
      (CHR ''E'', 14), (CHR ''F'', 15)] c"

fun digitsToNat :: "nat \<Rightarrow> string \<Rightarrow> nat \<Rightarrow> nat option" where
  "digitsToNat b [] acc = Some acc"
| "digitsToNat b (c # cs) acc =
     (case digitOf c of
        None \<Rightarrow> None
      | Some d \<Rightarrow> if d < b then digitsToNat b cs (acc * b + d) else None)"

definition parseDigits :: "nat \<Rightarrow> string \<Rightarrow> nat option" where
  "parseDigits b s = (if s = [] then None else digitsToNat b s 0)"

text \<open>The part before the first character satisfying \<open>P\<close>, and the part after it if there is one.\<close>

definition splitAtFirst :: "(char \<Rightarrow> bool) \<Rightarrow> string \<Rightarrow> string \<times> string option" where
  "splitAtFirst P s =
     (case dropWhile (\<lambda>c. \<not> P c) s of
        [] \<Rightarrow> (s, None)
      | c # r \<Rightarrow> (takeWhile (\<lambda>c. \<not> P c) s, Some r))"

definition parseMantissa :: "string \<Rightarrow> rat option" where
  "parseMantissa m =
     (case splitAtFirst (\<lambda>c. c = CHR ''.'') m of
        (ip, None) \<Rightarrow> map_option of_nat (parseDigits 10 ip)
      | (ip, Some fp) \<Rightarrow>
          if ip = [] \<and> fp = [] then None
          else (case (digitsToNat 10 ip 0, digitsToNat 10 fp 0) of
                  (Some i, Some f) \<Rightarrow> Some (of_nat i + of_nat f / 10 ^ length fp)
                | _ \<Rightarrow> None))"

definition parseExponent :: "string \<Rightarrow> int option" where
  "parseExponent e =
     (if startsWith e ''+'' then map_option int (parseDigits 10 (tl e))
      else if startsWith e ''-'' then map_option (\<lambda>n. - int n) (parseDigits 10 (tl e))
      else map_option int (parseDigits 10 e))"

definition scale10 :: "rat \<Rightarrow> int \<Rightarrow> rat" where
  "scale10 q k = (if 0 \<le> k then q * 10 ^ nat k else q / 10 ^ nat (- k))"

text \<open>
  The number an unsigned literal of mathematical value \<open>q\<close> reads as: \<open>Infinity\<close> from
  \<open>2\<^sup>1\<^sup>0\<^sup>2\<^sup>4 - 2\<^sup>9\<^sup>7\<^sup>0\<close> on, where the nearest double is no longer finite, and 0 up to
  \<open>2\<^sup>-\<^sup>1\<^sup>0\<^sup>7\<^sup>5\<close>, half the least positive double. In between, the rounding of \<open>q\<close> to
  the nearest double is not modelled.
\<close>

definition literalValue :: "rat \<Rightarrow> jsnum" where
  "literalValue q =
     (if 2 ^ 1024 - 2 ^ 970 \<le> q then PInf else if q \<le> 1 / 2 ^ 1075 then Fin 0 else Fin q)"

definition strUnsignedDecimalLiteral :: "string \<Rightarrow> jsnum option" where
  "strUnsignedDecimalLiteral s =
     (if s = ''Infinity'' then Some PInf
      else (case splitAtFirst (\<lambda>c. c = CHR ''e'' \<or> c = CHR ''E'') s of
              (m, None) \<Rightarrow> map_option literalValue (parseMantissa m)
            | (m, Some e) \<Rightarrow>
                (case (parseMantissa m, parseExponent e) of
                   (Some q, Some k) \<Rightarrow> Some (literalValue (scale10 q k))
                 | _ \<Rightarrow> None)))"

definition orNaN :: "jsnum option \<Rightarrow> jsnum" where
  "orNaN r = (case r of None \<Rightarrow> NaN | Some x \<Rightarrow> x)"

definition stringToNumber :: "string \<Rightarrow> jsnum" where
  "stringToNumber s =
     (let t = trimString s in
      if t = [] then Fin 0
      else if startsWith t ''0x'' \<or> startsWith t ''0X''
        then orNaN (map_option (\<lambda>n. literalValue (of_nat n)) (parseDigits 16 (drop 2 t)))
      else if startsWith t ''0o'' \<or> startsWith t ''0O''
        then orNaN (map_option (\<lambda>n. literalValue (of_nat n)) (parseDigits 8 (drop 2 t)))
      else if startsWith t ''0b'' \<or> startsWith t ''0B''
        then orNaN (map_option (\<lambda>n. literalValue (of_nat n)) (parseDigits 2 (drop 2 t)))
      else if startsWith t ''+'' then orNaN (strUnsignedDecimalLiteral (tl t))
      else if startsWith t ''-'' then js_neg (orNaN (strUnsignedDecimalLiteral (tl t)))
      else orNaN (strUnsignedDecimalLiteral t))"

text \<open>\<^verbatim>\<open>Number(v)\<close>, the truthiness of a value, and \<^verbatim>\<open>a || b\<close>.\<close>

fun Number :: "jsval \<Rightarrow> jsnum" where
  "Number JUndefined = NaN"
| "Number (JBool b) = (if b then Fin 1 else Fin 0)"
| "Number (JNum x) = x"
| "Number (JStr s) = stringToNumber s"

fun truthy :: "jsval \<Rightarrow> bool" where
  "truthy JUndefined = False"
| "truthy (JBool b) = b"
| "truthy (JNum x) = (x \<noteq> Fin 0 \<and> x \<noteq> NaN)"
| "truthy (JStr s) = (s \<noteq> [])"

definition js_or :: "jsval \<Rightarrow> jsval \<Rightarrow> jsval" where
  "js_or a b = (if truthy a then a else b)"

text \<open>The idiom \<^verbatim>\<open>Number(v) || 0\<close>: the number \<open>v\<close> converts to, with 0 for \<open>NaN\<close>.\<close>

definition num_or :: "jsnum \<Rightarrow> jsnum \<Rightarrow> jsnum" where
  "num_or a b = (if truthy (JNum a) then a else b)"

definition numberOr0 :: "jsval \<Rightarrow> jsnum" where
  "numberOr0 v = num_or (Number v) (Fin 0)"

section \<open>The data model\<close>

text \<open>
  The survey response is the \<^verbatim>\<open>form\<close> object: a value for every field name, \<open>undefined\<close>
  for a field that is absent. The emission factors are the \<^verbatim>\<open>defaults\<close> object; the
  nested objects of the Indian defaults are flattened, \<^verbatim>\<open>gbPerStreamingHour.default\<close>
  becoming \<open>gbPerStreamingHour_default\<close>.
\<close>

type_synonym form = "string \<Rightarrow> jsval"

record breakdown =
  deviceKg :: jsnum
  dataKg :: jsnum
  aiKg :: jsnum
  totalKg :: jsnum

record factors =
  gridKgCO2PerKWh :: jsnum
  devicePowerW :: "string \<rightharpoonup> jsnum"
  kgCO2PerGB :: jsnum
  inrPerTonneCO2 :: jsnum

record defaults = factors +
  gbPerStreamingHour :: jsnum

record indian_defaults = factors +
  gbPerStreamingHour_SD :: jsnum
  gbPerStreamingHour_HD :: jsnum
  gbPerStreamingHour_4K :: jsnum
  gbPerStreamingHour_default :: jsnum
  aiKgCO2PerQuery_text :: jsnum
  aiKgCO2PerQuery_image :: jsnum
  aiKgCO2PerQuery_code :: jsnum
  aiKgCO2PerQuery_voice :: jsnum
  aiKgCO2PerQuery_mixed :: jsnum
  aiKgCO2PerQuery_default :: jsnum

definition DEFAULTS :: defaults where
  "DEFAULTS = \<lparr>
     gridKgCO2PerKWh = Fin (7 / 10),
     devicePowerW = map_of
       [(''Smartphone'', Fin 5), (''Laptop'', Fin 50), (''Tablet'', Fin 10),
        (''Desktop'', Fin 150), (''Smart TV'', Fin 80), (''Other'', Fin 30),
        (''Gaming Console'', Fin 120), (''Streaming Device'', Fin 15),
        (''Smart Home Devices'', Fin 25), (''Router'', Fin 10)],
     kgCO2PerGB = Fin (5 / 100),
     inrPerTonneCO2 = Fin 2000,
     gbPerStreamingHour = Fin (15 / 10) \<rparr>"

definition INDIAN_DEFAULTS :: indian_defaults where
  "INDIAN_DEFAULTS = \<lparr>
     gridKgCO2PerKWh = Fin (82 / 100),
     devicePowerW = map_of
       [(''Smartphone'', Fin 3), (''Laptop'', Fin 65), (''Tablet'', Fin 8),
        (''Desktop'', Fin 180), (''Smart TV'', Fin 100), (''Other'', Fin 25),
        (''Gaming Console'', Fin 150), (''Streaming Device'', Fin 12),
        (''Smart Home Devices'', Fin 15), (''Router'', Fin 8)],
     kgCO2PerGB = Fin (65 / 1000),
     inrPerTonneCO2 = Fin 3000,
     gbPerStreamingHour_SD = Fin (3 / 10),
     gbPerStreamingHour_HD = Fin (12 / 10),
     gbPerStreamingHour_4K = Fin (45 / 10),
     gbPerStreamingHour_default = Fin (12 / 10),
     aiKgCO2PerQuery_text = Fin (1 / 10000),
     aiKgCO2PerQuery_image = Fin (2 / 100),
     aiKgCO2PerQuery_code = Fin (2 / 10000),
     aiKgCO2PerQuery_voice = Fin (1 / 10000),
     aiKgCO2PerQuery_mixed = Fin (5 / 1000),
     aiKgCO2PerQuery_default = Fin (5 / 10000) \<rparr>"

section \<open>Device emissions\<close>

text \<open>The \<^verbatim>\<open>deviceData\<close> array: category, count and duration of use in hours per day.\<close>

definition deviceData :: "form \<Rightarrow> (string \<times> jsnum \<times> jsnum) list" where
  "deviceData form =
     [(''Smartphone'', numberOr0 (form ''smartphone''), numberOr0 (form ''smartphoneDuration'')),
      (''Laptop'', numberOr0 (form ''laptop''), numberOr0 (form ''laptopDuration'')),
      (''Tablet'', numberOr0 (form ''tablet''), numberOr0 (form ''tabletDuration'')),
      (''Desktop'', numberOr0 (form ''desktop''), numberOr0 (form ''desktopDuration'')),
      (''Smart TV'', numberOr0 (form ''smartTV''), numberOr0 (form ''smartTVDuration'')),
      (''Gaming Console'', numberOr0 (form ''gamingConsole''),
         numberOr0 (form ''gamingConsoleDuration'')),
      (''Streaming Device'', numberOr0 (form ''streamingDevice''),
         numberOr0 (form ''streamingDeviceDuration'')),
      (''Smart Home Devices'', numberOr0 (form ''smartHomeDevices''),
         numberOr0 (form ''smartHomeDevicesDuration'')),
      (''Router'', numberOr0 (form ''router''), numberOr0 (form ''routerDuration'')),
      (''Other'', numberOr0 (form ''otherDevices''), numberOr0 (form ''otherDevicesDuration''))]"

text \<open>\<^verbatim>\<open>defaults.devicePowerW[type] || 0\<close>: a category the table lacks draws 0 W.\<close>

definition powerW :: "'a factors_scheme \<Rightarrow> string \<Rightarrow> jsnum" where
  "powerW cfg dtype = (case devicePowerW cfg dtype of None \<Rightarrow> Fin 0 | Some w \<Rightarrow> num_or w (Fin 0))"

definition kwhPerYear :: "'a factors_scheme \<Rightarrow> string \<Rightarrow> jsnum \<Rightarrow> jsnum" where
  "kwhPerYear cfg dtype duration =
     js_div (js_mul (js_mul (powerW cfg dtype) duration) (Fin 365)) (Fin 1000)"

text \<open>\<^verbatim>\<open>count * (kwhPerYear * defaults.gridKgCO2PerKWh)\<close>\<close>

definition baseEmissions :: "'a factors_scheme \<Rightarrow> string \<Rightarrow> jsnum \<Rightarrow> jsnum \<Rightarrow> jsnum" where
  "baseEmissions cfg dtype count duration =
     js_mul count (js_mul (kwhPerYear cfg dtype duration) (gridKgCO2PerKWh cfg))"

text \<open>
  The body of \<^verbatim>\<open>deviceData.forEach\<close>, from the running \<^verbatim>\<open>deviceKg\<close> to the next one:
  without multipliers in the first document of \<^verbatim>\<open>App.js\<close>, with them elsewhere.
\<close>

fun forEach_plain :: "'a factors_scheme \<Rightarrow> string \<times> jsnum \<times> jsnum \<Rightarrow> jsnum \<Rightarrow> jsnum" where
  "forEach_plain cfg (dtype, count, duration) acc =
     (if js_gt count (Fin 0) \<and> js_gt duration (Fin 0)
      then js_add acc (baseEmissions cfg dtype count duration)
      else acc)"

fun forEach_mult ::
  "'a factors_scheme \<Rightarrow> jsnum \<Rightarrow> jsnum \<Rightarrow> string \<times> jsnum \<times> jsnum \<Rightarrow> jsnum \<Rightarrow> jsnum" where
  "forEach_mult cfg powerSourceMultiplier chargingMultiplier (dtype, count, duration) acc =
     (if js_gt count (Fin 0) \<and> js_gt duration (Fin 0)
      then js_add acc
             (js_mul (js_mul (baseEmissions cfg dtype count duration) powerSourceMultiplier)
                chargingMultiplier)
      else acc)"

text \<open>The two \<^verbatim>\<open>switch\<close> statements compare the field with \<open>===\<close>.\<close>

definition getPowerSourceMultiplier :: "form \<Rightarrow> jsnum" where
  "getPowerSourceMultiplier form =
     (let v = form ''renewableEnergyUsage'' in
      if v = JStr ''0% - All conventional energy'' then Fin 1
      else if v = JStr ''1-25% - Mostly conventional'' then Fin (9 / 10)
      else if v = JStr ''26-50% - Mixed sources'' then Fin (7 / 10)
      else if v = JStr ''51-75% - Mostly renewable'' then Fin (4 / 10)
      else if v = JStr ''76-100% - All or mostly renewable'' then Fin (2 / 10)
      else Fin (8 / 10))"

definition getChargingMultiplier :: "form \<Rightarrow> jsnum" where
  "getChargingMultiplier form =
     (let v = form ''chargingHabits'' in
      if v = JStr ''Always keep plugged in'' then Fin (13 / 10)
      else if v = JStr ''Charge overnight (8+ hours)'' then Fin (11 / 10)
      else if v = JStr ''Charge when needed (1-3 hours)'' then Fin 1
      else if v = JStr ''Quick charge frequently (15-30 min)'' then Fin (12 / 10)
      else if v = JStr ''Battery saver mode user'' then Fin (8 / 10)
      else Fin 1)"

text \<open>The unrounded \<^verbatim>\<open>deviceKg\<close> of the three variants.\<close>

definition deviceKg_simple :: "'a factors_scheme \<Rightarrow> form \<Rightarrow> jsnum" where
  "deviceKg_simple cfg form =
     (if \<not> truthy (form ''noDevices'')
      then fold (forEach_plain cfg) (deviceData form) (Fin 0)
      else Fin 0)"

definition deviceKg_mult :: "'a factors_scheme \<Rightarrow> form \<Rightarrow> jsnum" where
  "deviceKg_mult cfg form =
     (if \<not> truthy (form ''noDevices'')
      then fold (forEach_mult cfg (getPowerSourceMultiplier form) (getChargingMultiplier form))
             (deviceData form) (Fin 0)
      else Fin 0)"

definition deviceKg_ext :: "'a factors_scheme \<Rightarrow> form \<Rightarrow> jsnum" where
  "deviceKg_ext cfg form =
     fold (forEach_mult cfg (getPowerSourceMultiplier form) (getChargingMultiplier form))
       (deviceData form) (Fin 0)"

section \<open>Data and streaming emissions\<close>

text \<open>
  The two documents of \<^verbatim>\<open>App.js\<close> read the streaming hours as numbers and annualise them
  by month: \<^verbatim>\<open>(academic + nonAcad) * 4.345\<close>, then
  \<^verbatim>\<open>streamingHoursPerMonth * (Number(defaults.gbPerStreamingHour) || 0) * 12\<close>.
\<close>

definition gbFromStreamingPerYear_monthly :: "jsnum \<Rightarrow> jsnum \<Rightarrow> jsnum" where
  "gbFromStreamingPerYear_monthly hoursPerWeek rate =
     (let streamingHoursPerMonth = js_mul hoursPerWeek (Fin (4345 / 1000))
      in js_mul (js_mul streamingHoursPerMonth rate) (Fin 12))"

definition dataKg_simple :: "defaults \<Rightarrow> form \<Rightarrow> jsnum" where
  "dataKg_simple cfg form =
     (let academic = numberOr0 (form ''streamingAcademicHrsPerWeek'');
          nonAcad = numberOr0 (form ''streamingNonAcademicHrsPerWeek'');
          gbFromStreamingPerYear =
            gbFromStreamingPerYear_monthly (js_add academic nonAcad)
              (numberOr0 (JNum (gbPerStreamingHour cfg)));
          gbFromBigTransfersPerYear =
            js_mul (numberOr0 (form ''largeTransfersPerMonth'')) (Fin 12);
          totalGB = js_add gbFromStreamingPerYear gbFromBigTransfersPerYear
      in js_mul totalGB (kgCO2PerGB cfg))"

text \<open>
  The Indian-defaults variant reads range labels. \<^verbatim>\<open>text.includes(p)\<close> is a method of
  strings: on a number or a boolean, which \<^verbatim>\<open>form.field || ""\<close> lets through when truthy,
  the call raises a \<open>TypeError\<close>. The checks run in the order of the source and the first
  that holds gives the midpoint.
\<close>

definition academicHours :: "jsval \<Rightarrow> js_error + jsnum" where
  "academicHours academicText =
     (case academicText of
        JStr s \<Rightarrow> Inr
          (if str_includes s ''1-5'' then Fin 3
           else if str_includes s ''6-15'' then Fin 10
           else if str_includes s ''16-30'' then Fin 23
           else if str_includes s ''31-50'' then Fin 40
           else if str_includes s ''50+'' then Fin 65
           else Fin 0)
      | _ \<Rightarrow> Inl TypeError)"

definition entertainmentHours :: "jsval \<Rightarrow> js_error + jsnum" where
  "entertainmentHours entertainmentText =
     (case entertainmentText of
        JStr s \<Rightarrow> Inr
          (if str_includes s ''1-10'' then Fin 5
           else if str_includes s ''11-25'' then Fin 18
           else if str_includes s ''26-40'' then Fin 33
           else if str_includes s ''41-60'' then Fin 50
           else if str_includes s ''60+'' then Fin 80
           else Fin 0)
      | _ \<Rightarrow> Inl TypeError)"

definition cloudHours :: "jsval \<Rightarrow> js_error + jsnum" where
  "cloudHours cloudText =
     (case cloudText of
        JStr s \<Rightarrow> Inr
          (if str_includes s ''1-5'' then Fin 3
           else if str_includes s ''6-15'' then Fin 10
           else if str_includes s ''16-30'' then Fin 23
           else if str_includes s ''31-50'' then Fin 40
           else if str_includes s ''50+'' then Fin 65
           else Fin 0)
      | _ \<Rightarrow> Inl TypeError)"

definition bind_err :: "js_error + 'a \<Rightarrow> ('a \<Rightarrow> js_error + 'b) \<Rightarrow> js_error + 'b" where
  "bind_err r f = (case r of Inl e \<Rightarrow> Inl e | Inr x \<Rightarrow> f x)"

text \<open>\<^verbatim>\<open>totalStreamingHoursPerWeek * defaults.gbPerStreamingHour.default * 52\<close>\<close>

definition gbFromStreamingPerYear_weekly :: "jsnum \<Rightarrow> jsnum \<Rightarrow> jsnum" where
  "gbFromStreamingPerYear_weekly totalStreamingHoursPerWeek rate =
     js_mul (js_mul totalStreamingHoursPerWeek rate) (Fin 52)"

definition dataKg_ext :: "indian_defaults \<Rightarrow> form \<Rightarrow> js_error + jsnum" where
  "dataKg_ext cfg form =
     bind_err (academicHours (js_or (form ''streamingAcademicHrsPerWeek'') (JStr ''''))) (\<lambda>academic.
     bind_err (entertainmentHours (js_or (form ''streamingNonAcademicHrsPerWeek'') (JStr '''')))
       (\<lambda>entertainment.
     bind_err (cloudHours (js_or (form ''cloudHoursPerWeek'') (JStr ''''))) (\<lambda>cloud.
       let totalStreamingHoursPerWeek = js_add academic entertainment;
           gbFromStreamingPerYear =
             gbFromStreamingPerYear_weekly totalStreamingHoursPerWeek
               (gbPerStreamingHour_default cfg);
           gbFromCloudPerYear = js_mul (js_mul cloud (Fin 52)) (Fin (5 / 10));
           gbFromBigTransfersPerYear =
             js_mul (numberOr0 (form ''largeTransfersPerMonth'')) (Fin 12);
           totalGB = js_add (js_add gbFromStreamingPerYear gbFromCloudPerYear)
                       gbFromBigTransfersPerYear
       in Inr (js_mul totalGB (kgCO2PerGB cfg)))))"

section \<open>AI emissions\<close>

text \<open>\<^verbatim>\<open>aiInteractions * aiMinutes * 365 * 0.001\<close> in both documents of \<^verbatim>\<open>App.js\<close>.\<close>

definition aiKg_simple :: "form \<Rightarrow> jsnum" where
  "aiKg_simple form =
     (let aiInteractions = numberOr0 (form ''aiInteractionsPerDay'');
          aiMinutes = numberOr0 (form ''typicalAiSessionMinutes'')
      in js_mul (js_mul (js_mul aiInteractions aiMinutes) (Fin 365)) (Fin (1 / 1000)))"

definition aiInteractionsDaily :: "jsval \<Rightarrow> js_error + jsnum" where
  "aiInteractionsDaily aiInteractionsText =
     (case aiInteractionsText of
        JStr s \<Rightarrow> Inr
          (if str_includes s ''1-5'' then Fin 3
           else if str_includes s ''6-15'' then Fin 10
           else if str_includes s ''16-30'' then Fin 23
           else if str_includes s ''31-50'' then Fin 40
           else if str_includes s ''50+'' then Fin 75
           else Fin 0)
      | _ \<Rightarrow> Inl TypeError)"

definition sessionMinutes :: "jsval \<Rightarrow> js_error + jsnum" where
  "sessionMinutes aiSessionText =
     (case aiSessionText of
        JStr s \<Rightarrow> Inr
          (if str_includes s ''Less than 1'' then Fin (5 / 10)
           else if str_includes s ''1-5'' then Fin 3
           else if str_includes s ''6-15'' then Fin 10
           else if str_includes s ''16-30'' then Fin 23
           else if str_includes s ''31-60'' then Fin 45
           else if str_includes s ''More than 1 hour'' then Fin 90
           else Fin 0)
      | _ \<Rightarrow> Inl TypeError)"

definition aiTypeMultiplier :: "indian_defaults \<Rightarrow> jsval \<Rightarrow> js_error + jsnum" where
  "aiTypeMultiplier cfg aiTypeText =
     (case aiTypeText of
        JStr s \<Rightarrow> Inr
          (if str_includes s ''Text generation'' then aiKgCO2PerQuery_text cfg
           else if str_includes s ''Image generation'' then aiKgCO2PerQuery_image cfg
           else if str_includes s ''Code assistance'' then aiKgCO2PerQuery_code cfg
           else if str_includes s ''Voice assistants'' then aiKgCO2PerQuery_voice cfg
           else if str_includes s ''Mixed usage'' then aiKgCO2PerQuery_mixed cfg
           else aiKgCO2PerQuery_default cfg)
      | _ \<Rightarrow> Inl TypeError)"

text \<open>\<^verbatim>\<open>Math.max(1, sessionMinutes / 2)\<close>\<close>

definition queriesPerSession :: "jsnum \<Rightarrow> jsnum" where
  "queriesPerSession minutes = Math_max (Fin 1) (js_div minutes (Fin 2))"

definition aiKg_ext :: "indian_defaults \<Rightarrow> form \<Rightarrow> js_error + jsnum" where
  "aiKg_ext cfg form =
     bind_err (aiInteractionsDaily (js_or (form ''aiInteractionsPerDay'') (JStr ''''))) (\<lambda>daily.
     bind_err (sessionMinutes (js_or (form ''typicalAiSessionMinutes'') (JStr ''''))) (\<lambda>minutes.
     bind_err (aiTypeMultiplier cfg (js_or (form ''aiUsageTypes'') (JStr ''''))) (\<lambda>multiplier.
       Inr (if js_gt daily (Fin 0) \<and> js_gt minutes (Fin 0)
            then (let totalQueriesPerYear =
                        js_mul (js_mul daily (queriesPerSession minutes)) (Fin 365)
                  in js_mul totalQueriesPerYear multiplier)
            else Fin 0))))"

section \<open>The breakdown\<close>

text \<open>
  \<^verbatim>\<open>const totalKg = round(deviceKg + dataKg + aiKg)
  return { deviceKg: round(deviceKg), dataKg: round(dataKg), aiKg: round(aiKg), totalKg }\<close>
\<close>

definition makeBreakdown :: "jsnum \<Rightarrow> jsnum \<Rightarrow> jsnum \<Rightarrow> breakdown" where
  "makeBreakdown device data ai =
     (let total = round_js (js_add (js_add device data) ai) 2
      in \<lparr>deviceKg = round_js device 2, dataKg = round_js data 2, aiKg = round_js ai 2,
          totalKg = total\<rparr>)"

text \<open>
  \<^verbatim>\<open>results\<close> of the first document of \<^verbatim>\<open>App.js\<close>, of its second document, and of the
  Indian-defaults variant. The first two only read properties of \<^verbatim>\<open>form\<close> and
  \<^verbatim>\<open>defaults\<close>, convert with \<^verbatim>\<open>Number\<close>, and use \<open>||\<close>, \<open>!\<close>, arithmetic,
  comparisons and \<^verbatim>\<open>Math.round\<close>, none of which raises on a string, a number, a boolean
  or \<open>undefined\<close>: they always return a breakdown.
\<close>

definition results_simple :: "defaults \<Rightarrow> form \<Rightarrow> js_error + breakdown" where
  "results_simple cfg form =
     Inr (makeBreakdown (deviceKg_simple cfg form) (dataKg_simple cfg form) (aiKg_simple form))"

definition results_mult :: "defaults \<Rightarrow> form \<Rightarrow> js_error + breakdown" where
  "results_mult cfg form =
     Inr (makeBreakdown (deviceKg_mult cfg form) (dataKg_simple cfg form) (aiKg_simple form))"

definition results_ext :: "indian_defaults \<Rightarrow> form \<Rightarrow> js_error + breakdown" where
  "results_ext cfg form =
     (let device = deviceKg_ext cfg form in
      bind_err (dataKg_ext cfg form) (\<lambda>data.
      bind_err (aiKg_ext cfg form) (\<lambda>ai.
        Inr (makeBreakdown device data ai))))"

section \<open>Currency conversion\<close>






section \<open>Specification predicates and sample responses\<close>

text \<open>Positive and non-negative numbers; \<open>NaN\<close> is neither.\<close>

definition js_pos :: "jsnum \<Rightarrow> bool" where
  "js_pos x = js_gt x (Fin 0)"

definition js_nonneg :: "jsnum \<Rightarrow> bool" where
  "js_nonneg x = js_le (Fin 0) x"

text \<open>
  Two relations between an old and a new quantity. \<open>grows\<close>: both are zero, or both are
  positive and the new one is at least the old one, or the new one is \<open>NaN\<close>.
  \<open>never_decreases\<close>: both are non-negative and the new one is at least the old one, or
  the new one is \<open>NaN\<close>.
\<close>

definition grows :: "jsnum \<Rightarrow> jsnum \<Rightarrow> bool" where
  "grows x y = (y = NaN \<or> (x = Fin 0 \<and> y = Fin 0) \<or> (js_pos x \<and> js_pos y \<and> js_le x y))"

definition never_decreases :: "jsnum \<Rightarrow> jsnum \<Rightarrow> bool" where
  "never_decreases old new = (new = NaN \<or> (js_nonneg old \<and> js_nonneg new \<and> js_le old new))"

text \<open>The categories of \<^verbatim>\<open>deviceData\<close>, and its count and duration fields.\<close>

definition deviceTypes :: "string list" where
  "deviceTypes = [''Smartphone'', ''Laptop'', ''Tablet'', ''Desktop'', ''Smart TV'',
     ''Gaming Console'', ''Streaming Device'', ''Smart Home Devices'', ''Router'', ''Other'']"


text \<open>A non-negative configuration: the grid intensity and the power draw of every category.\<close>

definition nonneg_factors :: "'a factors_scheme \<Rightarrow> bool" where
  "nonneg_factors cfg =
     (js_nonneg (gridKgCO2PerKWh cfg)
      \<and> list_all (\<lambda>t. \<not> js_lt (powerW cfg t) (Fin 0)) deviceTypes)"

definition entry_le :: "string \<times> jsnum \<times> jsnum \<Rightarrow> string \<times> jsnum \<times> jsnum \<Rightarrow> bool" where
  "entry_le x y =
     (fst x = fst y \<and> fst x \<in> set deviceTypes
      \<and> js_le (fst (snd x)) (fst (snd y)) \<and> js_le (snd (snd x)) (snd (snd y)))"

text \<open>
  The fields the Indian-defaults variant reads as range labels, and the values such a field
  can hold without the engine raising: a string, or a falsy value, which
  \<^verbatim>\<open>form.field || ""\<close> replaces by the empty string.
\<close>

definition categoricalFields :: "string list" where
  "categoricalFields =
     [''streamingAcademicHrsPerWeek'', ''streamingNonAcademicHrsPerWeek'', ''cloudHoursPerWeek'',
      ''aiInteractionsPerDay'', ''typicalAiSessionMinutes'', ''aiUsageTypes'']"

fun textual :: "jsval \<Rightarrow> bool" where
  "textual (JStr s) = True"
| "textual JUndefined = True"
| "textual (JBool b) = (\<not> b)"
| "textual (JNum x) = (x = Fin 0 \<or> x = NaN)"

fun isStr :: "jsval \<Rightarrow> bool" where
  "isStr (JStr s) = True"
| "isStr v = False"

definition undefinedForm :: form where
  "undefinedForm k = JUndefined"

text \<open>The initial state of the form: every text field empty, the check boxes unchecked.\<close>

definition blankForm :: form where
  "blankForm k = (if k = ''noDevices'' \<or> k = ''consent'' then JBool False else JStr '''')"

definition phoneForm :: form where
  "phoneForm = blankForm (''smartphone'' := JStr ''1'', ''smartphoneDuration'' := JStr ''4'')"

definition aiScenarioForm :: form where
  "aiScenarioForm = blankForm
     (''aiInteractionsPerDay'' := JStr ''1-5 times'',
      ''typicalAiSessionMinutes'' := JStr ''1-5 minutes'',
      ''aiUsageTypes'' := JStr ''Text generation (ChatGPT, etc.)'')"

definition noAiForm :: form where
  "noAiForm = blankForm
     (''aiInteractionsPerDay'' := JStr ''0 - Don't use AI'',
      ''typicalAiSessionMinutes'' := JStr ''6-15 minutes'',
      ''aiUsageTypes'' := JStr ''Image generation (DALL-E, etc.)'')"

definition negativeTransferForm :: form where
  "negativeTransferForm = blankForm (''largeTransfersPerMonth'' := JStr ''-5'')"

definition negativeAiForm :: form where
  "negativeAiForm = blankForm
     (''aiInteractionsPerDay'' := JStr ''-1'', ''typicalAiSessionMinutes'' := JStr ''10'')"

definition numericCloudForm :: form where
  "numericCloudForm = blankForm (''cloudHoursPerWeek'' := JNum (Fin 5))"


text \<open>
  Finite numbers; a configuration whose grid intensity and power draws are positive and
  finite; a response whose device counts and durations all read as finite numbers.
\<close>

fun is_fin :: "jsnum \<Rightarrow> bool" where
  "is_fin (Fin q) = True"
| "is_fin x = False"




text \<open>
  Further sample responses and configurations: the flag for no devices holding the string
  \<open>false\<close>; the AI usage type holding \<open>true\<close>; a phone and a laptop; a grid intensity of
  0; a smartphone power draw of 0; a carbon price of 500.
\<close>

definition stringFlagForm :: form where
  "stringFlagForm = phoneForm (''noDevices'' := JStr ''false'')"

definition booleanTypeForm :: form where
  "booleanTypeForm = blankForm (''aiUsageTypes'' := JBool True)"





section \<open>Properties of the model\<close>

subsection \<open>Evaluation and basic facts\<close>

lemma floor_rat_numeral_div:
  "\<lfloor>numeral a / numeral b :: rat\<rfloor> = numeral a div numeral b"
  using floor_divide_of_int_eq [of "numeral a" "numeral b", where ?'a = rat] by simp

lemma floor_rat_neg_numeral_div:
  "\<lfloor>- (numeral a / numeral b) :: rat\<rfloor> = - numeral a div numeral b"
  using floor_divide_of_int_eq [of "- numeral a" "numeral b", where ?'a = rat] by simp

lemma floor_rat_one_div:
  "\<lfloor>1 / numeral b :: rat\<rfloor> = 1 div numeral b"
  using floor_divide_of_int_eq [of 1 "numeral b", where ?'a = rat] by simp

text \<open>Literals of ordinary size read as their value.\<close>

lemma literalValue_zero: "literalValue 0 = Fin 0"
  by (simp add: literalValue_def)

lemma literalValue_ordinary:
  assumes "1 / 1000000 \<le> q" "q \<le> 1000000"
  shows "literalValue q = Fin q"
proof -
  have "(1000000 :: rat) < 2 ^ 1024 - 2 ^ 970" by simp
  with assms(2) have a: "\<not> 2 ^ 1024 - 2 ^ 970 \<le> q" by linarith
  have "(1 :: rat) / 2 ^ 1075 < 1 / 1000000" by simp
  with assms(1) have b: "\<not> q \<le> 1 / 2 ^ 1075" by linarith
  from a b show ?thesis by (simp only: literalValue_def if_False)
qed

lemmas number_defs =
  stringToNumber_def trimString_def isWhiteSpace_def strUnsignedDecimalLiteral_def
  splitAtFirst_def parseMantissa_def parseExponent_def parseDigits_def digitOf_def
  orNaN_def scale10_def literalValue_zero literalValue_ordinary numberOr0_def num_or_def

lemmas round_defs =
  round_js_def Math_pow10_def floor_rat_numeral_div floor_rat_neg_numeral_div floor_rat_one_div

lemma startsWith_prefix: "startsWith s p \<longleftrightarrow> prefix p s"
  by (induction s p rule: startsWith.induct) auto

text \<open>\<open>str_includes\<close> is containment as a contiguous sublist.\<close>

lemma str_includes_sublist: "str_includes s p \<longleftrightarrow> sublist p s"
  by (induction s) (simp_all add: sublist_Cons_right startsWith_prefix)

subsection \<open>The order of the substring checks\<close>

text \<open>
  C2. In the categorical normalisation of the Indian-defaults variant, the check for
  \<open>1-5\<close> comes first in the tables of the AI interactions per day, the academic streaming
  hours and the cloud hours, so every label containing \<open>1-5\<close> gets the midpoint 3. The
  labels \<open>31-50 times\<close>, \<open>31-50 hrs - Very heavy (intensive programs)\<close> and
  \<open>31-50 hrs - Very heavy usage (streaming, gaming)\<close> contain \<open>1-5\<close>, and get 3, not 40.
\<close>

theorem label_with_1_5_maps_to_3:
  assumes "str_includes s ''1-5''"
  shows "aiInteractionsDaily (JStr s) = Inr (Fin 3)
       \<and> academicHours (JStr s) = Inr (Fin 3)
       \<and> cloudHours (JStr s) = Inr (Fin 3)
       \<and> str_includes ''31-50 times'' ''1-5''
       \<and> aiInteractionsDaily (JStr ''31-50 times'') = Inr (Fin 3)
       \<and> str_includes ''31-50 hrs - Very heavy (intensive programs)'' ''1-5''
       \<and> academicHours (JStr ''31-50 hrs - Very heavy (intensive programs)'') = Inr (Fin 3)
       \<and> str_includes ''31-50 hrs - Very heavy usage (streaming, gaming)'' ''1-5''
       \<and> cloudHours (JStr ''31-50 hrs - Very heavy usage (streaming, gaming)'') = Inr (Fin 3)"
  using assms by (simp add: aiInteractionsDaily_def academicHours_def cloudHours_def)

theorem label_with_1_5_maps_to_3_witness:
  "str_includes ''1-5 times'' ''1-5''
   \<and> aiInteractionsDaily (JStr ''1-5 times'') = Inr (Fin 3)
   \<and> academicHours (JStr ''1-5 times'') = Inr (Fin 3)
   \<and> cloudHours (JStr ''1-5 times'') = Inr (Fin 3)"
proof -
  have h: "str_includes ''1-5 times'' ''1-5''" by simp
  from label_with_1_5_maps_to_3 [OF h] h show ?thesis by blast
qed

subsection \<open>Negative numeric answers\<close>

lemma negativeTransfer_device: "deviceKg_ext cfg negativeTransferForm = Fin 0"
  by (simp add: deviceKg_ext_def deviceData_def negativeTransferForm_def blankForm_def
        number_defs js_gt_def)

lemma negativeTransfer_data:
  "dataKg_ext INDIAN_DEFAULTS negativeTransferForm = Inr (Fin (- (39 / 10)))"
  by (simp add: dataKg_ext_def negativeTransferForm_def blankForm_def number_defs js_or_def
        bind_err_def academicHours_def entertainmentHours_def cloudHours_def
        gbFromStreamingPerYear_weekly_def INDIAN_DEFAULTS_def)

lemma negativeTransfer_ai: "aiKg_ext INDIAN_DEFAULTS negativeTransferForm = Inr (Fin 0)"
  by (simp add: aiKg_ext_def negativeTransferForm_def blankForm_def js_or_def bind_err_def
        aiInteractionsDaily_def sessionMinutes_def aiTypeMultiplier_def js_gt_def)

lemma negativeTransfer_simple:
  "deviceKg_simple DEFAULTS negativeTransferForm = Fin 0"
  "dataKg_simple DEFAULTS negativeTransferForm = Fin (- 3)"
  "aiKg_simple negativeTransferForm = Fin 0"
  by (simp_all add: deviceKg_simple_def deviceData_def dataKg_simple_def aiKg_simple_def
        gbFromStreamingPerYear_monthly_def negativeTransferForm_def blankForm_def number_defs
        js_gt_def DEFAULTS_def)

lemma negativeAi_simple:
  "deviceKg_simple DEFAULTS negativeAiForm = Fin 0"
  "dataKg_simple DEFAULTS negativeAiForm = Fin 0"
  "aiKg_simple negativeAiForm = Fin (- (73 / 20))"
  by (simp_all add: deviceKg_simple_def deviceData_def dataKg_simple_def aiKg_simple_def
        gbFromStreamingPerYear_monthly_def negativeAiForm_def blankForm_def number_defs
        js_gt_def DEFAULTS_def)

text \<open>
  C3. The claim is that every component of the breakdown is non-negative, also when a
  numeric field parses to a negative number. The device loop skips a category unless its
  count and duration are positive, and the extended AI formula has the same guard; the bulk
  transfer field and the simple AI formula have none. With \<open>-5\<close> GB of transfers per
  month the Indian-defaults variant returns \<open>dataKg = totalKg = -3.9\<close> and the first
  \<^verbatim>\<open>App.js\<close> document returns \<open>-3\<close>; with \<open>-1\<close> interactions of 10 minutes the
  latter returns \<open>aiKg = -3.65\<close>.
\<close>

theorem negative_answer_gives_negative_breakdown:
  "results_ext INDIAN_DEFAULTS negativeTransferForm =
     Inr \<lparr>deviceKg = Fin 0, dataKg = Fin (- (39 / 10)), aiKg = Fin 0,
          totalKg = Fin (- (39 / 10))\<rparr>
   \<and> js_lt (Fin (- (39 / 10))) (Fin 0)
   \<and> results_simple DEFAULTS negativeTransferForm =
     Inr \<lparr>deviceKg = Fin 0, dataKg = Fin (- 3), aiKg = Fin 0, totalKg = Fin (- 3)\<rparr>
   \<and> results_simple DEFAULTS negativeAiForm =
     Inr \<lparr>deviceKg = Fin 0, dataKg = Fin 0, aiKg = Fin (- (73 / 20)),
          totalKg = Fin (- (73 / 20))\<rparr>"
  by (simp add: results_ext_def results_simple_def negativeTransfer_device
        negativeTransfer_data negativeTransfer_ai negativeTransfer_simple negativeAi_simple
        bind_err_def makeBreakdown_def round_defs Let_def)

subsection \<open>Currency conversion\<close>


lemma numberOr0_Fin: "numberOr0 (JNum (Fin k)) = Fin k"
  by (simp add: numberOr0_def num_or_def)






subsection \<open>The two annualisation conventions\<close>

text \<open>
  C5. The claim is that the monthly model, \<open>h * 4.345 * r * 12\<close>, and the weekly model,
  \<open>h * r * 52\<close>, give the same annual gigabytes. They do not: the monthly model gives
  \<open>52.14 * h * r\<close>, the weekly one \<open>52 * h * r\<close>, and the two are equal only when
  \<open>h * r = 0\<close>.
\<close>

theorem annualisation_difference:
  "gbFromStreamingPerYear_monthly (Fin h) (Fin r) = Fin (h * r * (5214 / 100))
   \<and> gbFromStreamingPerYear_weekly (Fin h) (Fin r) = Fin (h * r * 52)
   \<and> (gbFromStreamingPerYear_monthly (Fin h) (Fin r) = gbFromStreamingPerYear_weekly (Fin h) (Fin r))
       = (h * r = 0)"
  by (auto simp: gbFromStreamingPerYear_monthly_def gbFromStreamingPerYear_weekly_def)

text \<open>
  C5 as stated fails: for one hour a week at 1 GB an hour the monthly model gives 52.14 GB a
  year and the weekly model 52.
\<close>

theorem annualisation_counterexample:
  "gbFromStreamingPerYear_monthly (Fin 1) (Fin 1) \<noteq> gbFromStreamingPerYear_weekly (Fin 1) (Fin 1)"
  by (simp add: gbFromStreamingPerYear_monthly_def gbFromStreamingPerYear_weekly_def)

subsection \<open>The flag for no devices\<close>

lemma round_js_zero: "round_js (Fin 0) 2 = Fin 0"
  by (simp add: round_defs)

lemma phone_device_simple: "deviceKg_simple DEFAULTS phoneForm = Fin (511 / 100)"
  by (simp add: deviceKg_simple_def deviceData_def phoneForm_def blankForm_def number_defs
        js_gt_def baseEmissions_def kwhPerYear_def powerW_def DEFAULTS_def)

lemma stringFlag_device_simple: "deviceKg_simple DEFAULTS stringFlagForm = Fin 0"
  by (simp add: deviceKg_simple_def stringFlagForm_def)

lemma phone_other_simple:
  "dataKg_simple DEFAULTS phoneForm = Fin 0" "aiKg_simple phoneForm = Fin 0"
  "dataKg_simple DEFAULTS stringFlagForm = Fin 0" "aiKg_simple stringFlagForm = Fin 0"
  by (simp_all add: dataKg_simple_def aiKg_simple_def gbFromStreamingPerYear_monthly_def
        stringFlagForm_def phoneForm_def blankForm_def number_defs DEFAULTS_def)

text \<open>
  C6. The claim is that the flag is read as a strict boolean. In the two documents of
  \<^verbatim>\<open>App.js\<close>, which test \<^verbatim>\<open>!form.noDevices\<close>, the flag is read by its truthiness: when it
  holds \<open>true\<close>, or any other truthy value such as a non-empty string or a non-zero
  number, the returned \<open>deviceKg\<close> is 0 whatever the count and duration fields hold; when
  it holds \<open>false\<close> or another falsy value (\<open>undefined\<close>, the empty string, 0, \<open>NaN\<close>),
  the returned \<open>deviceKg\<close> is the rounded sum over the device categories.
\<close>

theorem noDevices_read_by_truthiness:
  "(\<exists>r. results_simple cfg form = Inr r
        \<and> deviceKg r = (if truthy (form ''noDevices'') then Fin 0
             else round_js (fold (forEach_plain cfg) (deviceData form) (Fin 0)) 2))
   \<and> (\<exists>r. results_mult cfg form = Inr r
        \<and> deviceKg r = (if truthy (form ''noDevices'') then Fin 0
             else round_js (fold (forEach_mult cfg (getPowerSourceMultiplier form)
                    (getChargingMultiplier form)) (deviceData form) (Fin 0)) 2))
   \<and> truthy (JBool True) \<and> truthy (JStr ''false'') \<and> truthy (JNum (Fin 1))
   \<and> \<not> truthy (JBool False) \<and> \<not> truthy JUndefined \<and> \<not> truthy (JStr '''')
   \<and> \<not> truthy (JNum (Fin 0)) \<and> \<not> truthy (JNum NaN)"
  by (simp add: results_simple_def results_mult_def makeBreakdown_def deviceKg_simple_def
        deviceKg_mult_def round_js_zero)

text \<open>
  C6 as stated fails: with the string \<open>false\<close> in the flag, which is not the boolean
  \<open>true\<close>, the devices are suppressed all the same; without the flag the same response
  gives 5.11 kg.
\<close>

theorem noDevices_strict_counterexample:
  "stringFlagForm ''noDevices'' = JStr ''false''
   \<and> stringFlagForm ''noDevices'' \<noteq> JBool True
   \<and> results_simple DEFAULTS stringFlagForm =
       Inr \<lparr>deviceKg = Fin 0, dataKg = Fin 0, aiKg = Fin 0, totalKg = Fin 0\<rparr>
   \<and> results_simple DEFAULTS phoneForm =
       Inr \<lparr>deviceKg = Fin (511 / 100), dataKg = Fin 0, aiKg = Fin 0,
            totalKg = Fin (511 / 100)\<rparr>"
proof -
  have "stringFlagForm ''noDevices'' = JStr ''false''" by (simp add: stringFlagForm_def)
  moreover have "results_simple DEFAULTS stringFlagForm =
       Inr \<lparr>deviceKg = Fin 0, dataKg = Fin 0, aiKg = Fin 0, totalKg = Fin 0\<rparr>"
    by (simp add: results_simple_def makeBreakdown_def stringFlag_device_simple
          phone_other_simple round_js_zero)
  moreover have "results_simple DEFAULTS phoneForm =
       Inr \<lparr>deviceKg = Fin (511 / 100), dataKg = Fin 0, aiKg = Fin 0,
            totalKg = Fin (511 / 100)\<rparr>"
    by (simp add: results_simple_def makeBreakdown_def phone_device_simple
          phone_other_simple round_defs)
  ultimately show ?thesis by simp
qed

subsection \<open>The extended AI model\<close>

lemma aiScenario_ai: "aiKg_ext INDIAN_DEFAULTS aiScenarioForm = Inr (Fin (657 / 4000))"
  by (simp add: aiKg_ext_def aiScenarioForm_def blankForm_def js_or_def bind_err_def
        aiInteractionsDaily_def sessionMinutes_def aiTypeMultiplier_def queriesPerSession_def
        Math_max_def js_gt_def INDIAN_DEFAULTS_def)

lemma aiScenario_data: "dataKg_ext INDIAN_DEFAULTS aiScenarioForm = Inr (Fin 0)"
  by (simp add: dataKg_ext_def aiScenarioForm_def blankForm_def number_defs js_or_def
        bind_err_def academicHours_def entertainmentHours_def cloudHours_def
        gbFromStreamingPerYear_weekly_def INDIAN_DEFAULTS_def)

lemma aiScenario_device: "deviceKg_ext INDIAN_DEFAULTS aiScenarioForm = Fin 0"
  by (simp add: deviceKg_ext_def deviceData_def aiScenarioForm_def blankForm_def number_defs
        js_gt_def)

text \<open>
  C7. The claim gives the unrounded \<open>aiKg\<close> of the scenario as 0.164. With 3 interactions
  a day, sessions of 3 minutes and the text multiplier 0.0001, the engine computes
  \<open>queriesPerSession = max(1, 3/2) = 1.5\<close> and \<open>aiKg = 3 * 1.5 * 365 * 0.0001 = 0.16425\<close>,
  returned as 0.16.
\<close>

theorem ai_scenario_values:
  "aiInteractionsDaily (JStr ''1-5 times'') = Inr (Fin 3)
   \<and> sessionMinutes (JStr ''1-5 minutes'') = Inr (Fin 3)
   \<and> aiTypeMultiplier INDIAN_DEFAULTS (JStr ''Text generation (ChatGPT, etc.)'')
       = Inr (Fin (1 / 10000))
   \<and> queriesPerSession (Fin 3) = Fin (15 / 10)
   \<and> aiKg_ext INDIAN_DEFAULTS aiScenarioForm = Inr (Fin (3 * (15 / 10) * 365 * (1 / 10000)))
   \<and> Fin (3 * (15 / 10) * 365 * (1 / 10000)) = Fin (16425 / 100000)
   \<and> results_ext INDIAN_DEFAULTS aiScenarioForm =
       Inr \<lparr>deviceKg = Fin 0, dataKg = Fin 0, aiKg = Fin (16 / 100), totalKg = Fin (16 / 100)\<rparr>"
proof -
  have "aiInteractionsDaily (JStr ''1-5 times'') = Inr (Fin 3)"
    "sessionMinutes (JStr ''1-5 minutes'') = Inr (Fin 3)"
    "aiTypeMultiplier INDIAN_DEFAULTS (JStr ''Text generation (ChatGPT, etc.)'')
       = Inr (Fin (1 / 10000))"
    "queriesPerSession (Fin 3) = Fin (15 / 10)"
    by (simp_all add: aiInteractionsDaily_def sessionMinutes_def aiTypeMultiplier_def
          queriesPerSession_def Math_max_def INDIAN_DEFAULTS_def)
  moreover have "aiKg_ext INDIAN_DEFAULTS aiScenarioForm
      = Inr (Fin (3 * (15 / 10) * 365 * (1 / 10000)))"
    by (simp add: aiScenario_ai)
  moreover have "results_ext INDIAN_DEFAULTS aiScenarioForm =
       Inr \<lparr>deviceKg = Fin 0, dataKg = Fin 0, aiKg = Fin (16 / 100), totalKg = Fin (16 / 100)\<rparr>"
    by (simp add: results_ext_def aiScenario_ai aiScenario_data aiScenario_device bind_err_def
          makeBreakdown_def round_defs Let_def)
  ultimately show ?thesis by simp
qed

text \<open>
  C7 as stated fails: the unrounded \<open>aiKg\<close> of the scenario is not 0.164.
\<close>

theorem ai_scenario_counterexample:
  "aiKg_ext INDIAN_DEFAULTS aiScenarioForm \<noteq> Inr (Fin (164 / 1000))"
  by (simp add: aiScenario_ai)

subsection \<open>Which responses the engine returns on\<close>

lemma isStr_js_or: "isStr (js_or v (JStr '''')) = textual v"
  by (cases v) (auto simp: js_or_def)

lemma categorical_returns:
  "(\<exists>x. academicHours w = Inr x) = isStr w"
  "(\<exists>x. entertainmentHours w = Inr x) = isStr w"
  "(\<exists>x. cloudHours w = Inr x) = isStr w"
  "(\<exists>x. aiInteractionsDaily w = Inr x) = isStr w"
  "(\<exists>x. sessionMinutes w = Inr x) = isStr w"
  "(\<exists>x. aiTypeMultiplier cfg w = Inr x) = isStr w"
  by (cases w; simp add: academicHours_def entertainmentHours_def cloudHours_def
        aiInteractionsDaily_def sessionMinutes_def aiTypeMultiplier_def)+

lemma bind_err_returns:
  "(\<exists>y. bind_err r f = Inr y) = (\<exists>x. r = Inr x \<and> (\<exists>y. f x = Inr y))"
  by (cases r) (simp_all add: bind_err_def)

lemma dataKg_ext_returns:
  "(\<exists>d. dataKg_ext cfg form = Inr d) =
     (textual (form ''streamingAcademicHrsPerWeek'')
      \<and> textual (form ''streamingNonAcademicHrsPerWeek'')
      \<and> textual (form ''cloudHoursPerWeek''))"
  unfolding dataKg_ext_def bind_err_returns Let_def
  by (simp add: categorical_returns isStr_js_or)

lemma aiKg_ext_returns:
  "(\<exists>a. aiKg_ext cfg form = Inr a) =
     (textual (form ''aiInteractionsPerDay'')
      \<and> textual (form ''typicalAiSessionMinutes'')
      \<and> textual (form ''aiUsageTypes''))"
  unfolding aiKg_ext_def bind_err_returns
  by (simp add: categorical_returns isStr_js_or)

lemma results_ext_returns:
  "(\<exists>r. results_ext cfg form = Inr r) = list_all (\<lambda>k. textual (form k)) categoricalFields"
  unfolding results_ext_def bind_err_returns Let_def
  by (simp add: dataKg_ext_returns aiKg_ext_returns categoricalFields_def)

lemma results_ext_raises:
  "(results_ext cfg form = Inl TypeError)
     = (\<not> list_all (\<lambda>k. textual (form k)) categoricalFields)"
proof -
  have "(results_ext cfg form = Inl TypeError) = (\<not> (\<exists>r. results_ext cfg form = Inr r))"
    by (cases "results_ext cfg form") (auto intro: js_error.exhaust)
  then show ?thesis by (simp only: results_ext_returns)
qed

lemma numberOr0_not_NaN [simp]: "numberOr0 v \<noteq> NaN"
  by (simp add: numberOr0_def num_or_def)

text \<open>
  C8. The claim is that \<open>aiKg = 0\<close> for every response whose interactions per day or
  session length resolves to 0, whatever the usage type field holds. That holds for the
  responses whose six categorical fields hold strings or falsy values, the ones on which
  the Indian-defaults variant returns a breakdown: there, whenever the interactions per day
  or the session length resolves to 0, the engine returns \<open>aiKg = 0\<close>, whatever label the
  usage type holds. The empty string, the option \<open>0 - Don't use AI\<close> and a label matching
  no range resolve to 0.
\<close>

theorem ai_guard_gives_zero:
  assumes "list_all (\<lambda>k. textual (form k)) categoricalFields"
    and "aiInteractionsDaily (js_or (form ''aiInteractionsPerDay'') (JStr '''')) = Inr (Fin 0)
       \<or> sessionMinutes (js_or (form ''typicalAiSessionMinutes'') (JStr '''')) = Inr (Fin 0)"
  shows "(\<exists>r. results_ext cfg form = Inr r \<and> aiKg r = Fin 0)
       \<and> aiInteractionsDaily (JStr '''') = Inr (Fin 0)
       \<and> aiInteractionsDaily (JStr ''0 - Don't use AI'') = Inr (Fin 0)
       \<and> aiInteractionsDaily (JStr ''sometimes'') = Inr (Fin 0)
       \<and> sessionMinutes (JStr '''') = Inr (Fin 0)
       \<and> sessionMinutes (JStr ''a while'') = Inr (Fin 0)"
proof -
  from assms(1) obtain r where r: "results_ext cfg form = Inr r"
    using results_ext_returns [of cfg form] by blast
  then obtain data ai where d: "dataKg_ext cfg form = Inr data" and a: "aiKg_ext cfg form = Inr ai"
    and b: "r = makeBreakdown (deviceKg_ext cfg form) data ai"
    by (auto simp: results_ext_def bind_err_def Let_def split: sum.splits)
  from a assms(2) have "ai = Fin 0"
    by (auto simp: aiKg_ext_def bind_err_def js_gt_def split: sum.splits)
  then have "aiKg r = Fin 0" by (simp add: b makeBreakdown_def round_js_zero)
  with r have "\<exists>r. results_ext cfg form = Inr r \<and> aiKg r = Fin 0" by blast
  then show ?thesis by (simp add: aiInteractionsDaily_def sessionMinutes_def)
qed

theorem ai_guard_gives_zero_witness:
  "list_all (\<lambda>k. textual (noAiForm k)) categoricalFields
   \<and> aiInteractionsDaily (js_or (noAiForm ''aiInteractionsPerDay'') (JStr '''')) = Inr (Fin 0)
   \<and> sessionMinutes (js_or (noAiForm ''typicalAiSessionMinutes'') (JStr '''')) = Inr (Fin 10)
   \<and> (\<exists>r. results_ext INDIAN_DEFAULTS noAiForm = Inr r \<and> aiKg r = Fin 0)"
proof -
  have h: "list_all (\<lambda>k. textual (noAiForm k)) categoricalFields"
    by (simp add: categoricalFields_def noAiForm_def blankForm_def)
  have i: "aiInteractionsDaily (js_or (noAiForm ''aiInteractionsPerDay'') (JStr '''')) = Inr (Fin 0)"
    by (simp add: noAiForm_def js_or_def aiInteractionsDaily_def)
  have s: "sessionMinutes (js_or (noAiForm ''typicalAiSessionMinutes'') (JStr '''')) = Inr (Fin 10)"
    by (simp add: noAiForm_def js_or_def sessionMinutes_def)
  from ai_guard_gives_zero [of noAiForm INDIAN_DEFAULTS, OF h] i
  have "\<exists>r. results_ext INDIAN_DEFAULTS noAiForm = Inr r \<and> aiKg r = Fin 0" by blast
  with h i s show ?thesis by blast
qed

text \<open>
  C8 as stated fails: with \<open>true\<close> in the usage type field and no answer for the
  interactions, which resolves to 0, the engine raises a \<open>TypeError\<close> and returns no
  \<open>aiKg\<close>.
\<close>

theorem ai_guard_counterexample:
  "aiInteractionsDaily (js_or (booleanTypeForm ''aiInteractionsPerDay'') (JStr '''')) = Inr (Fin 0)
   \<and> booleanTypeForm ''aiUsageTypes'' = JBool True
   \<and> results_ext INDIAN_DEFAULTS booleanTypeForm = Inl TypeError"
  by (simp add: results_ext_raises categoricalFields_def booleanTypeForm_def blankForm_def
        js_or_def aiInteractionsDaily_def)

text \<open>
  C10. The claim is that the engine returns a breakdown for every response whose fields are
  strings, numbers, booleans or undefined. The two documents of \<^verbatim>\<open>App.js\<close> do. The
  Indian-defaults variant returns exactly when each of its six categorical fields holds a
  string or a falsy value (\<open>undefined\<close>, \<open>false\<close>, 0, \<open>NaN\<close>); on a non-zero number or on
  \<open>true\<close> in such a field it raises a \<open>TypeError\<close>. A numeric field never yields \<open>NaN\<close>:
  a missing, empty or malformed one reads as 0.
\<close>

theorem engine_returns_on_textual_fields:
  "(\<exists>r. results_simple cfg form = Inr r)
   \<and> (\<exists>r. results_mult cfg form = Inr r)
   \<and> (\<exists>r. results_ext icfg form = Inr r) = list_all (\<lambda>k. textual (form k)) categoricalFields
   \<and> (results_ext icfg form = Inl TypeError)
       = (\<not> list_all (\<lambda>k. textual (form k)) categoricalFields)
   \<and> numberOr0 v \<noteq> NaN
   \<and> numberOr0 JUndefined = Fin 0
   \<and> numberOr0 (JStr '''') = Fin 0
   \<and> numberOr0 (JStr ''abc'') = Fin 0"
proof -
  have "numberOr0 JUndefined = Fin 0" "numberOr0 (JStr '''') = Fin 0"
    "numberOr0 (JStr ''abc'') = Fin 0"
    by (simp_all add: number_defs)
  then show ?thesis
    by (simp add: results_simple_def results_mult_def results_ext_returns results_ext_raises)
qed

theorem engine_returns_on_textual_fields_witness:
  "list_all (\<lambda>k. textual (undefinedForm k)) categoricalFields
   \<and> (\<exists>r. results_ext INDIAN_DEFAULTS undefinedForm = Inr r)
   \<and> (\<exists>r. results_simple DEFAULTS undefinedForm = Inr r)"
proof -
  have h: "list_all (\<lambda>k. textual (undefinedForm k)) categoricalFields"
    by (simp add: categoricalFields_def undefinedForm_def)
  with engine_returns_on_textual_fields [of DEFAULTS undefinedForm INDIAN_DEFAULTS]
  show ?thesis by blast
qed

text \<open>
  C10 as stated fails: with the number 5 in the cloud hours field the Indian-defaults variant
  raises a \<open>TypeError\<close>.
\<close>

theorem engine_total_counterexample:
  "results_ext INDIAN_DEFAULTS numericCloudForm = Inl TypeError"
  by (simp add: results_ext_raises categoricalFields_def numericCloudForm_def blankForm_def)

subsection \<open>Monotonicity of the device emissions\<close>

lemma js_le_simps [simp]:
  "js_le (Fin a) (Fin b) = (a \<le> b)"
  "js_le (Fin a) PInf" "js_le PInf PInf" "js_le NInf x = (x \<noteq> NaN)"
  "\<not> js_le PInf (Fin a)" "\<not> js_le x NaN" "\<not> js_le NaN x" "\<not> js_le PInf NInf"
  "\<not> js_le (Fin a) NInf"
  by (cases x; auto simp: js_le_def)+

lemma js_pos_simps [simp]:
  "js_pos (Fin a) = (0 < a)" "js_pos PInf" "\<not> js_pos NInf" "\<not> js_pos NaN"
  by (simp_all add: js_pos_def js_gt_def)

lemma js_nonneg_simps [simp]:
  "js_nonneg (Fin a) = (0 \<le> a)" "js_nonneg PInf" "\<not> js_nonneg NInf" "\<not> js_nonneg NaN"
  by (simp_all add: js_nonneg_def)

lemma js_le_refl: "x \<noteq> NaN \<Longrightarrow> js_le x x"
  by (cases x) simp_all

lemma js_pos_le: "js_pos c \<Longrightarrow> js_le c c' \<Longrightarrow> js_pos c'"
  by (cases c; cases c') auto

lemma js_le_right_refl: "js_le c c' \<Longrightarrow> js_le c' c'"
  by (cases c') auto

lemma grows_never_decreases: "grows x y \<Longrightarrow> never_decreases x y"
  by (cases x; cases y) (auto simp: grows_def never_decreases_def)

lemma grows_refl: "x \<noteq> NaN \<Longrightarrow> \<not> js_lt x (Fin 0) \<Longrightarrow> grows x x"
  by (cases x) (auto simp: grows_def)

text \<open>Products and quotients by a positive constant keep \<open>grows\<close>; sums keep \<open>never_decreases\<close>.\<close>

lemma grows_mul:
  assumes "grows a a'" "grows b b'"
  shows "grows (js_mul a b) (js_mul a' b')"
proof (cases "\<exists>p q p' q'. a = Fin p \<and> a' = Fin p' \<and> b = Fin q \<and> b' = Fin q'")
  case True
  then obtain p q p' q' where e: "a = Fin p" "a' = Fin p'" "b = Fin q" "b' = Fin q'" by blast
  from assms show ?thesis unfolding e
    by (auto simp: grows_def mult_mono')
next
  case False
  with assms show ?thesis
    by (cases a; cases a'; cases b; cases b')
       (auto simp: grows_def zero_less_mult_iff)
qed

lemma grows_div:
  assumes "grows a a'" "0 < b"
  shows "grows (js_div a (Fin b)) (js_div a' (Fin b))"
  using assms
  by (cases a; cases a') (auto simp: grows_def divide_le_cancel zero_less_divide_iff)

lemma never_decreases_add:
  assumes "never_decreases a a'" "never_decreases b b'"
  shows "never_decreases (js_add a b) (js_add a' b')"
  using assms
  by (cases a; cases a'; cases b; cases b')
     (auto simp: never_decreases_def)

lemma never_decreases_add_right:
  assumes "never_decreases a a'" "grows t t'"
  shows "never_decreases a (js_add a' t')"
  using assms
  by (cases a; cases a'; cases t'; cases t)
     (auto simp: never_decreases_def grows_def)


lemma powerW_not_NaN: "powerW cfg t \<noteq> NaN"
  by (simp add: powerW_def num_or_def split: option.splits)

lemma grows_baseEmissions:
  assumes "js_nonneg (gridKgCO2PerKWh cfg)" "\<not> js_lt (powerW cfg t) (Fin 0)"
    and "js_pos c" "js_pos d" "js_le c c'" "js_le d d'"
  shows "grows (baseEmissions cfg t c d) (baseEmissions cfg t c' d')"
proof -
  have p: "grows (powerW cfg t) (powerW cfg t)"
    using assms(2) by (rule grows_refl [OF powerW_not_NaN])
  have g: "grows (gridKgCO2PerKWh cfg) (gridKgCO2PerKWh cfg)"
    using assms(1) by (cases "gridKgCO2PerKWh cfg") (auto simp: grows_def)
  have c: "grows c c'" using assms(3,5) by (cases c; cases c') (auto simp: grows_def)
  have d: "grows d d'" using assms(4,6) by (cases d; cases d') (auto simp: grows_def)
  have k: "grows (Fin 365) (Fin 365)" by (simp add: grows_def)
  have "grows (kwhPerYear cfg t d) (kwhPerYear cfg t d')"
    unfolding kwhPerYear_def by (intro grows_div grows_mul p d k) simp
  then show ?thesis
    unfolding baseEmissions_def by (intro grows_mul c g)
qed

text \<open>One step of the loop, on an entry whose count and duration did not decrease.\<close>

lemma guarded_add_mono:
  assumes "js_le c c'" "js_le d d'" "never_decreases acc acc'"
    and old: "js_pos c \<Longrightarrow> js_pos d \<Longrightarrow> grows T T'"
    and new: "js_pos c' \<Longrightarrow> js_pos d' \<Longrightarrow> grows T' T'"
  shows "never_decreases
           (if js_gt c (Fin 0) \<and> js_gt d (Fin 0) then js_add acc T else acc)
           (if js_gt c' (Fin 0) \<and> js_gt d' (Fin 0) then js_add acc' T' else acc')"
proof (cases "js_pos c \<and> js_pos d")
  case True
  with assms(1,2) have "js_pos c' \<and> js_pos d'" by (auto intro: js_pos_le)
  with True old assms(3) show ?thesis
    by (simp add: js_pos_def [symmetric] never_decreases_add grows_never_decreases)
next
  case False
  then show ?thesis using new assms(3)
    by (auto simp add: js_pos_def [symmetric] never_decreases_add_right)
qed

lemma entry_le_cases:
  assumes "entry_le x y"
  obtains t c d c' d' where "x = (t, c, d)" "y = (t, c', d')" "t \<in> set deviceTypes"
    "js_le c c'" "js_le d d'"
  using assms by (cases x; cases y) (auto simp: entry_le_def)

lemma forEach_plain_mono:
  assumes "nonneg_factors cfg" "entry_le x y" "never_decreases acc acc'"
  shows "never_decreases (forEach_plain cfg x acc) (forEach_plain cfg y acc')"
proof -
  from assms(2) obtain t c d c' d' where e: "x = (t, c, d)" "y = (t, c', d')"
    "t \<in> set deviceTypes" "js_le c c'" "js_le d d'" by (rule entry_le_cases)
  from assms(1) e(3) have n: "js_nonneg (gridKgCO2PerKWh cfg)" "\<not> js_lt (powerW cfg t) (Fin 0)"
    by (simp_all add: nonneg_factors_def list_all_iff)
  have r: "js_le c' c'" "js_le d' d'" using e(4,5) by (auto intro: js_le_right_refl)
  show ?thesis unfolding e(1,2) forEach_plain.simps
    by (rule guarded_add_mono [OF e(4,5) assms(3)])
       (rule grows_baseEmissions [OF n]; simp add: e r; fail)+
qed

lemma forEach_mult_mono:
  assumes "nonneg_factors cfg" "entry_le x y" "never_decreases acc acc'"
    and "grows psm psm" "grows cm cm"
  shows "never_decreases (forEach_mult cfg psm cm x acc) (forEach_mult cfg psm cm y acc')"
proof -
  from assms(2) obtain t c d c' d' where e: "x = (t, c, d)" "y = (t, c', d')"
    "t \<in> set deviceTypes" "js_le c c'" "js_le d d'" by (rule entry_le_cases)
  from assms(1) e(3) have n: "js_nonneg (gridKgCO2PerKWh cfg)" "\<not> js_lt (powerW cfg t) (Fin 0)"
    by (simp_all add: nonneg_factors_def list_all_iff)
  have r: "js_le c' c'" "js_le d' d'" using e(4,5) by (auto intro: js_le_right_refl)
  show ?thesis unfolding e(1,2) forEach_mult.simps
    by (rule guarded_add_mono [OF e(4,5) assms(3)])
       (intro grows_mul assms(4,5), rule grows_baseEmissions [OF n]; simp add: e r; fail)+
qed

text \<open>The whole loop, by induction over the two arrays side by side.\<close>

lemma fold_plain_mono:
  assumes "nonneg_factors cfg" "list_all2 entry_le xs ys" "never_decreases acc acc'"
  shows "never_decreases (fold (forEach_plain cfg) xs acc) (fold (forEach_plain cfg) ys acc')"
  using assms(2,3)
  by (induction xs ys arbitrary: acc acc' rule: list_all2_induct)
     (simp_all add: forEach_plain_mono [OF assms(1)])

lemma fold_mult_mono:
  assumes "nonneg_factors cfg" "list_all2 entry_le xs ys" "never_decreases acc acc'"
    and "grows psm psm" "grows cm cm"
  shows "never_decreases (fold (forEach_mult cfg psm cm) xs acc)
           (fold (forEach_mult cfg psm cm) ys acc')"
  using assms(2,3)
  by (induction xs ys arbitrary: acc acc' rule: list_all2_induct)
     (simp_all add: forEach_mult_mono [OF assms(1) _ _ assms(4,5)])

lemma deviceData_mono:
  assumes "\<And>x. js_le (numberOr0 (form x)) (numberOr0 (form' x))"
  shows "list_all2 entry_le (deviceData form) (deviceData form')"
  by (simp add: deviceData_def entry_le_def deviceTypes_def assms)

lemma grows_getPowerSourceMultiplier:
  "grows (getPowerSourceMultiplier form) (getPowerSourceMultiplier form)"
  by (simp add: getPowerSourceMultiplier_def Let_def grows_def)

lemma grows_getChargingMultiplier:
  "grows (getChargingMultiplier form) (getChargingMultiplier form)"
  by (simp add: getChargingMultiplier_def Let_def grows_def)






lemma never_decreases_js: "never_decreases x y \<Longrightarrow> \<not> js_lt y x \<and> (y = NaN \<or> js_le x y)"
  by (cases x; cases y) (auto simp: never_decreases_def)




text \<open>Finite factors and finite readings give a finite \<open>deviceKg\<close>.\<close>

lemma is_fin_iff: "is_fin x = (\<exists>q. x = Fin q)"
  by (cases x) auto

















subsection \<open>The components that cannot be negative\<close>

text \<open>
  The guards of the device loop and of the extended AI formula keep those two components
  from being negative; the data component has no such guard.
\<close>

lemma deviceKg_not_negative:
  assumes "nonneg_factors cfg"
  shows "deviceKg_simple cfg form = NaN \<or> js_nonneg (deviceKg_simple cfg form)"
    "deviceKg_mult cfg form = NaN \<or> js_nonneg (deviceKg_mult cfg form)"
    "deviceKg_ext cfg form = NaN \<or> js_nonneg (deviceKg_ext cfg form)"
proof -
  have l: "list_all2 entry_le (deviceData form) (deviceData form)"
    by (rule deviceData_mono) (simp add: js_le_refl)
  have z: "never_decreases (Fin 0) (Fin 0)" by (simp add: never_decreases_def)
  have "never_decreases (fold (forEach_plain cfg) (deviceData form) (Fin 0))
          (fold (forEach_plain cfg) (deviceData form) (Fin 0))"
    by (rule fold_plain_mono [OF assms l z])
  then show "deviceKg_simple cfg form = NaN \<or> js_nonneg (deviceKg_simple cfg form)"
    by (auto simp: deviceKg_simple_def never_decreases_def)
  have "never_decreases (deviceKg_ext cfg form) (deviceKg_ext cfg form)"
    unfolding deviceKg_ext_def
    by (rule fold_mult_mono [OF assms l z grows_getPowerSourceMultiplier
          grows_getChargingMultiplier])
  then show e: "deviceKg_ext cfg form = NaN \<or> js_nonneg (deviceKg_ext cfg form)"
    by (auto simp: never_decreases_def)
  have "deviceKg_mult cfg form = (if \<not> truthy (form ''noDevices'') then deviceKg_ext cfg form else Fin 0)"
    by (simp add: deviceKg_mult_def deviceKg_ext_def)
  with e show "deviceKg_mult cfg form = NaN \<or> js_nonneg (deviceKg_mult cfg form)"
    by auto
qed

lemma aiKg_ext_not_negative:
  assumes "aiKg_ext INDIAN_DEFAULTS form = Inr a"
  shows "js_nonneg a"
proof -
  obtain n m q where n: "aiInteractionsDaily (js_or (form ''aiInteractionsPerDay'') (JStr '''')) = Inr n"
    and m: "sessionMinutes (js_or (form ''typicalAiSessionMinutes'') (JStr '''')) = Inr m"
    and q: "aiTypeMultiplier INDIAN_DEFAULTS (js_or (form ''aiUsageTypes'') (JStr '''')) = Inr q"
    using assms by (auto simp: aiKg_ext_def bind_err_def split: sum.splits)
  from n have "\<exists>n'. n = Fin n' \<and> 0 \<le> n'"
    by (auto simp: aiInteractionsDaily_def split: jsval.splits if_splits)
  then obtain n' where n': "n = Fin n'" "0 \<le> n'" by blast
  from m have "\<exists>m'. m = Fin m' \<and> 0 \<le> m'"
    by (auto simp: sessionMinutes_def split: jsval.splits if_splits)
  then obtain m' where m': "m = Fin m'" "0 \<le> m'" by blast
  from q have "\<exists>q'. q = Fin q' \<and> 0 \<le> q'"
    by (auto simp: aiTypeMultiplier_def INDIAN_DEFAULTS_def split: jsval.splits if_splits)
  then obtain q' where q': "q = Fin q'" "0 \<le> q'" by blast
  from assms show ?thesis
    by (auto simp: aiKg_ext_def bind_err_def n m q n' m' q' queriesPerSession_def Math_max_def
          js_gt_def)
qed

end
